theory Spec2Isabelle
  imports Main "HOL-Library.Word"
begin

unbundle bit_operations_syntax

section \<open>The truth table generator (table\_verite.py)\<close>

text \<open>
  Python integers are unbounded: \<open>n >> i\<close> is \<open>drop_bit i n\<close> on \<open>int\<close> (a floor
  division by a power of two) and \<open>& 1\<close> is \<open>AND 1\<close>.
  \<open>reversed(range(8))\<close> is the list 7, 6, ..., 0.
\<close>

definition compteur :: "int \<Rightarrow> int list" where
  "compteur n = map (\<lambda>i. (drop_bit i n) AND 1) (rev [0..<8])"

definition bit3 :: "int \<Rightarrow> int list" where
  "bit3 n = map (\<lambda>i. (drop_bit i n) AND 1) (rev [0..<3])"

text \<open>
  The \<open>while k >= 0\<close> loop of \<open>sortie\<close>, with \<open>k\<close> as its state. The index
  \<open>compteur(n)[k]\<close> is read only for \<open>0 \<le> k\<close>, and the loop starts at 7, so the read
  is always inside the 8-element list.
\<close>

function sortie_loop :: "int \<Rightarrow> int \<Rightarrow> int list" where
  "sortie_loop n k =
     (if k \<ge> 0 then
        (if compteur n ! nat k = 0
         then map (\<lambda>i. if int i = k then 1 else 0) [0..<8] @ bit3 (7 - k)
         else sortie_loop n (k - 1))
      else replicate 8 0 @ replicate 3 0)"
  by pat_completeness auto
termination
  by (relation "measure (\<lambda>(n, k). nat (k + 1))") auto

declare sortie_loop.simps [simp del]

definition sortie :: "int \<Rightarrow> int list" where
  "sortie n = sortie_loop n 7"


section \<open>Python values used by flopoco\_fixiir\_metrics.py\<close>

text \<open>
  A Python \<open>str\<close> is a sequence of Unicode code points, a \<open>bytes\<close> object a sequence
  of octets. The literals of the source are ASCII, written here through \<open>ascii\<close>.
\<close>

type_synonym pystr = "nat list"
type_synonym pybytes = "8 word list"

definition ascii :: "string \<Rightarrow> pystr" where
  "ascii s = map of_char s"

subsection \<open>Formatting an integer: \<open>f"{int(x)}"\<close>\<close>

function digits10 :: "nat \<Rightarrow> pystr" where
  "digits10 n = (if n < 10 then [48 + n] else digits10 (n div 10) @ [48 + n mod 10])"
  by pat_completeness auto
termination
  by (relation "measure id") auto

declare digits10.simps [simp del]

definition str_int :: "int \<Rightarrow> pystr" where
  "str_int i = (if i < 0 then 45 # digits10 (nat (- i)) else digits10 (nat i))"

subsection \<open>The Unicode character database\<close>

text \<open>
  In a \<open>str\<close> pattern \<open>\s\<close> and \<open>\d\<close> are Unicode aware, and so are the whitespace and
  the digits \<open>int()\<close> accepts. On ASCII both classes are fixed: whitespace is
  \<open>\t \n \v \f \r\<close>, the separators 0x1C to 0x1F and the space; the digits are 0 to 9.
  Beyond ASCII they are read from the interpreter's Unicode tables, which are not part of
  this repository: the class of a non-ASCII code point is the parameter \<open>U\<close>.
\<close>

datatype uclass = USpace | UDecimal nat | UOther

definition is_space :: "(nat \<Rightarrow> uclass) \<Rightarrow> nat \<Rightarrow> bool" where
  "is_space U c =
     (if c < 128 then (9 \<le> c \<and> c \<le> 13) \<or> (28 \<le> c \<and> c \<le> 32) else U c = USpace)"

definition is_digit :: "(nat \<Rightarrow> uclass) \<Rightarrow> nat \<Rightarrow> bool" where
  "is_digit U c =
     (if c < 128 then 48 \<le> c \<and> c \<le> 57
      else (case U c of UDecimal v \<Rightarrow> True | _ \<Rightarrow> False))"

definition digit_val :: "(nat \<Rightarrow> uclass) \<Rightarrow> nat \<Rightarrow> nat" where
  "digit_val U c =
     (if c < 128 then c - 48 else (case U c of UDecimal v \<Rightarrow> v | _ \<Rightarrow> 0))"

subsection \<open>\<open>int(s)\<close> on a string\<close>

text \<open>
  \<open>int\<close> strips surrounding whitespace, reads an optional sign and then decimal digits,
  where single underscores may stand between digits; anything else raises ValueError
  (\<open>None\<close>).
\<close>

fun int_digits :: "(nat \<Rightarrow> uclass) \<Rightarrow> nat \<Rightarrow> pystr \<Rightarrow> nat option" where
  "int_digits U acc [] = Some acc"
| "int_digits U acc [c] =
     (if is_digit U c then Some (acc * 10 + digit_val U c) else None)"
| "int_digits U acc (c # d # ds) =
     (if is_digit U c then int_digits U (acc * 10 + digit_val U c) (d # ds)
      else if c = 95 \<and> is_digit U d then int_digits U (acc * 10 + digit_val U d) ds
      else None)"

definition int_magnitude :: "(nat \<Rightarrow> uclass) \<Rightarrow> pystr \<Rightarrow> nat option" where
  "int_magnitude U t =
     (case t of [] \<Rightarrow> None
      | c # cs \<Rightarrow> if is_digit U c then int_digits U (digit_val U c) cs else None)"

definition strip :: "(nat \<Rightarrow> uclass) \<Rightarrow> pystr \<Rightarrow> pystr" where
  "strip U s = rev (dropWhile (is_space U) (rev (dropWhile (is_space U) s)))"

definition py_int :: "(nat \<Rightarrow> uclass) \<Rightarrow> pystr \<Rightarrow> int option" where
  "py_int U s =
     (case strip U s of [] \<Rightarrow> None
      | c # cs \<Rightarrow>
          if c = 45 then map_option (\<lambda>m. - int m) (int_magnitude U cs)
          else if c = 43 then map_option int (int_magnitude U cs)
          else map_option int (int_magnitude U (c # cs)))"

subsection \<open>\<open>bytes.decode("utf-8", errors=...)\<close> and \<open>str(bytes)\<close>\<close>

datatype errors_mode = Strict | Replace

datatype decode_error = UnicodeDecodeError

definition is_cont :: "nat \<Rightarrow> bool" where
  "is_cont b = (128 \<le> b \<and> b < 192)"

text \<open>
  The code point at the head of a non-empty octet sequence, or \<open>None\<close> where the head is
  malformed, with the number of octets it covers. A malformed head covers the lead octet
  and the continuation octets that were still valid.
\<close>

fun utf8_first :: "nat list \<Rightarrow> nat option \<times> nat" where
  "utf8_first [] = (None, 0)"
| "utf8_first (c # bs) =
     (if c < 128 then (Some c, 1)
      else if c < 194 then (None, 1)
      else if c < 224 then
        (case bs of
           [] \<Rightarrow> (None, 1)
         | b1 # r \<Rightarrow>
             if is_cont b1 then (Some ((c - 192) * 64 + (b1 - 128)), 2) else (None, 1))
      else if c < 240 then
        (case bs of
           [] \<Rightarrow> (None, 1)
         | b1 # r \<Rightarrow>
             if \<not> is_cont b1 \<or> (if b1 < 160 then c = 224 else c = 237) then (None, 1)
             else
               (case r of
                  [] \<Rightarrow> (None, 2)
                | b2 # r2 \<Rightarrow>
                    if is_cont b2
                    then (Some ((c - 224) * 4096 + (b1 - 128) * 64 + (b2 - 128)), 3)
                    else (None, 2)))
      else if c < 245 then
        (case bs of
           [] \<Rightarrow> (None, 1)
         | b1 # r \<Rightarrow>
             if \<not> is_cont b1 \<or> (if b1 < 144 then c = 240 else c = 244) then (None, 1)
             else
               (case r of
                  [] \<Rightarrow> (None, 2)
                | b2 # r2 \<Rightarrow>
                    if \<not> is_cont b2 then (None, 2)
                    else
                      (case r2 of
                         [] \<Rightarrow> (None, 3)
                       | b3 # r3 \<Rightarrow>
                           if is_cont b3
                           then (Some ((c - 240) * 262144 + (b1 - 128) * 4096
                                        + (b2 - 128) * 64 + (b3 - 128)), 4)
                           else (None, 3))))
      else (None, 1))"

text \<open>
  Under \<open>Strict\<close> a malformed sequence raises; under \<open>Replace\<close> it becomes U+FFFD
  (65533) and decoding goes on behind it.
\<close>

function utf8_decode :: "errors_mode \<Rightarrow> nat list \<Rightarrow> decode_error + pystr" where
  "utf8_decode h [] = Inr []"
| "utf8_decode h (b # bs) =
     (case utf8_first (b # bs) of
        (Some cp, n) \<Rightarrow> map_sum id ((#) cp) (utf8_decode h (drop (n - 1) bs))
      | (None, n) \<Rightarrow>
          (case h of
             Strict \<Rightarrow> Inl UnicodeDecodeError
           | Replace \<Rightarrow> map_sum id ((#) 65533) (utf8_decode h (drop (n - 1) bs))))"
  by pat_completeness auto
termination
  by (relation "measure (\<lambda>(h, bs). length bs)") auto

definition bytes_decode :: "errors_mode \<Rightarrow> pybytes \<Rightarrow> decode_error + pystr" where
  "bytes_decode h b = utf8_decode h (map unat b)"

text \<open>\<open>str(b)\<close> of a bytes object is its \<open>repr\<close>: \<open>b'...'\<close> with escapes.\<close>

definition hex_digit :: "nat \<Rightarrow> nat" where
  "hex_digit k = (if k < 10 then 48 + k else 87 + k)"

definition repr_byte :: "nat \<Rightarrow> nat \<Rightarrow> pystr" where
  "repr_byte quote c =
     (if c = quote \<or> c = 92 then [92, c]
      else if c = 9 then [92, 116]
      else if c = 10 then [92, 110]
      else if c = 13 then [92, 114]
      else if c < 32 \<or> c \<ge> 127 then [92, 120, hex_digit (c div 16), hex_digit (c mod 16)]
      else [c])"

definition str_bytes :: "pybytes \<Rightarrow> pystr" where
  "str_bytes b =
     (let cs = map unat b;
          quote = (if 39 \<in> set cs \<and> 34 \<notin> set cs then 34 else 39)
      in [98, quote] @ concat (map (repr_byte quote) cs) @ [quote])"


section \<open>Regular expressions, as \<open>re\<close> matches them\<close>

text \<open>
  The constructs the three patterns of the source use. Matching is by backtracking:
  \<open>rmatch\<close> lists every way a pattern matches at the head of the text, in the order in
  which the matcher tries them (an alternative's left branch first, optional and
  repeated parts greedy), each as the text left over with the content of group 1 so far.
  A repetition stops at an iteration that consumed nothing.
\<close>

datatype cset = Space | Digit | OneOf pystr

datatype regex =
    Lit pystr
  | Cls cset
  | Seq regex regex
  | Alt regex regex
  | Opt regex
  | Star regex
  | Group regex

definition Plus :: "regex \<Rightarrow> regex" where
  "Plus r = Seq r (Star r)"

definition in_cset :: "(nat \<Rightarrow> uclass) \<Rightarrow> cset \<Rightarrow> nat \<Rightarrow> bool" where
  "in_cset U cs c =
     (case cs of Space \<Rightarrow> is_space U c | Digit \<Rightarrow> is_digit U c | OneOf xs \<Rightarrow> c \<in> set xs)"

type_synonym mstate = "pystr \<times> pystr option"

text \<open>A literal is compared character by character; \<open>after_prefix l s\<close> is what follows it.\<close>

fun after_prefix :: "pystr \<Rightarrow> pystr \<Rightarrow> pystr option" where
  "after_prefix [] s = Some s"
| "after_prefix (x # xs) [] = None"
| "after_prefix (x # xs) (y # ys) = (if x = y then after_prefix xs ys else None)"

function rmatch :: "(nat \<Rightarrow> uclass) \<Rightarrow> regex \<Rightarrow> mstate \<Rightarrow> mstate list" where
  "rmatch U (Lit l) (s, g) =
     (case after_prefix l s of None \<Rightarrow> [] | Some s' \<Rightarrow> [(s', g)])"
| "rmatch U (Cls cs) (s, g) =
     (case s of
        [] \<Rightarrow> []
      | x # xs \<Rightarrow> if in_cset U cs x then [(xs, g)] else [])"
| "rmatch U (Seq a b) (s, g) = concat (map (rmatch U b) (rmatch U a (s, g)))"
| "rmatch U (Alt a b) (s, g) = rmatch U a (s, g) @ rmatch U b (s, g)"
| "rmatch U (Opt a) (s, g) = rmatch U a (s, g) @ [(s, g)]"
| "rmatch U (Star a) (s, g) =
     concat (map (\<lambda>st'. if length (fst st') < length s then rmatch U (Star a) st' else [])
                 (rmatch U a (s, g))) @ [(s, g)]"
| "rmatch U (Group a) (s, g) =
     map (\<lambda>st'. (fst st', Some (take (length s - length (fst st')) s)))
         (rmatch U a (s, g))"
  by pat_completeness auto
termination
  by (relation "measures [\<lambda>(U, r, st). size r, \<lambda>(U, r, st). length (fst st)]") auto

declare rmatch.simps(6) [simp del]

text \<open>
  \<open>pattern.search(text)\<close>: the match at the first position of the text, from the left,
  where the pattern matches, the end of the text included. The result is what
  \<open>m.group(1)\<close> then returns: the text of the group, or \<open>None\<close> for a group that took
  no part in the match.
\<close>

definition match_at :: "(nat \<Rightarrow> uclass) \<Rightarrow> regex \<Rightarrow> pystr \<Rightarrow> pystr option option" where
  "match_at U r s = (case rmatch U r (s, None) of [] \<Rightarrow> None | st # _ \<Rightarrow> Some (snd st))"

fun re_search :: "(nat \<Rightarrow> uclass) \<Rightarrow> regex \<Rightarrow> pystr \<Rightarrow> pystr option option" where
  "re_search U r [] = match_at U r []"
| "re_search U r (x # xs) =
     (case match_at U r (x # xs) of Some g \<Rightarrow> Some g | None \<Rightarrow> re_search U r xs)"


section \<open>flopoco\_fixiir\_metrics.py\<close>

subsection \<open>The patterns\<close>

definition FLOAT_RE :: regex where
  "FLOAT_RE =
     Group (Seq (Opt (Cls (OneOf (ascii ''+-''))))
           (Seq (Alt (Seq (Plus (Cls Digit)) (Opt (Seq (Lit (ascii ''.'')) (Star (Cls Digit)))))
                     (Seq (Lit (ascii ''.'')) (Plus (Cls Digit))))
                (Opt (Seq (Cls (OneOf (ascii ''eE'')))
                     (Seq (Opt (Cls (OneOf (ascii ''+-'')))) (Plus (Cls Digit)))))))"

definition RE_H :: regex where
  "RE_H =
     Seq (Alt (Lit (ascii ''Computed filter worst-case peak gain''))
              (Lit (ascii ''Filter worst-case peak gain'')))
         (Seq (Lit (ascii '':'')) (Seq (Star (Cls Space)) (Seq (Lit (ascii ''H='')) FLOAT_RE)))"

definition RE_HEPS :: regex where
  "RE_HEPS =
     Seq (Alt (Lit (ascii ''Computed error amplification worst-case peak gain''))
              (Lit (ascii ''Error amplification worst-case peak gain'')))
         (Seq (Lit (ascii '':'')) (Seq (Star (Cls Space)) (Seq (Lit (ascii ''Heps='')) FLOAT_RE)))"

definition RE_LSBEXT :: regex where
  "RE_LSBEXT =
     Seq (Lit (ascii ''Building an IIR filter faithful to''))
         (Seq (Star (Cls Space))
              (Seq (Lit (ascii ''lsbExt=''))
                   (Group (Seq (Opt (Cls (OneOf (ascii ''+-'')))) (Plus (Cls Digit))))))"

subsection \<open>Data\<close>

record 'f FixIIRMetrics =
  H :: 'f
  Heps :: "'f option"
  lsbExt :: int
  raw_log :: pystr
  timedOut :: bool

text \<open>
  What \<open>subprocess.run(cmd, capture_output=True, text=False, check=False, timeout=...)\<close>
  does: it returns a completed process (exit code, captured streams), or raises
  \<open>TimeoutExpired\<close> (with the output captured so far, each stream possibly \<open>None\<close>),
  \<open>FileNotFoundError\<close>, or another exception, which the function does not catch.
\<close>

datatype proc_outcome =
    Completed int "pybytes option" "pybytes option"
  | TimeoutExpired "pybytes option" "pybytes option"
  | FileNotFoundError
  | OtherException

text \<open>
  The exceptions of \<open>run_fixiir_and_parse_metrics\<close>. The first five are the
  \<open>RuntimeError\<close>s of the source, each with the values its message is formatted from:
  \<^item> \<open>TimeoutFailure t log\<close>: "FloPoCo timeout after \{t\}s while running FixIIR. Log:" and the log;
  \<^item> \<open>ExecutableNotFound exe\<close>: "FloPoCo executable not found: \{exe\}. ...";
  \<^item> \<open>ExitFailure code log\<close>: "FloPoCo exited with code \{code\}. Log:" and the log;
  \<^item> \<open>HNotFound log\<close>: "Could not parse H from FloPoCo log. Log:" and the log;
  \<^item> \<open>LsbExtNotFound log\<close>: "Could not parse lsbExt from FloPoCo log. Log:" and the log.
  \<open>TypeError\<close> is \<open>float(None)\<close> or \<open>int(None)\<close> on a group that took no part in the
  match, \<open>ValueError\<close> is \<open>int\<close> on a text it does not accept, \<open>Uncaught\<close> is an
  exception of \<open>subprocess.run\<close> that passes through.
\<close>

datatype 't error =
    TimeoutFailure "'t option" pystr
  | ExecutableNotFound pystr
  | ExitFailure int pystr
  | HNotFound pystr
  | LsbExtNotFound pystr
  | TypeError
  | ValueError
  | Uncaught

text \<open>
  What the function reads from its surroundings: \<open>shutil.which\<close>, \<open>subprocess.run\<close>
  (command and timeout to outcome), \<open>float\<close> on a string (floating point values are the
  type \<open>'f\<close>; \<open>float\<close> accepts every text of the numeric grammar of \<open>FLOAT_RE\<close>), and
  the Unicode classes.
\<close>

record ('f, 't) env =
  which :: "pystr \<Rightarrow> pystr option"
  subprocess_run :: "pystr list \<Rightarrow> 't option \<Rightarrow> proc_outcome"
  float_of_str :: "pystr \<Rightarrow> 'f"
  ucd :: "nat \<Rightarrow> uclass"

record ('f, 't) fixiir_args =
  coeffb :: pystr
  coeffa :: pystr
  lsbIn :: int
  lsbOut :: int
  loglevel :: int
  generateFigures :: int
  flopoco_exe :: "pystr option"
  extra_args :: "pystr list option"
  timeout_s :: "'t option"
  fallback_H :: "'f option"

subsection \<open>\_resolve\_flopoco\_exe\<close>

text \<open>\<open>if flopoco_exe:\<close> and \<open>if found:\<close> test truth: \<open>None\<close> and the empty string are false.\<close>

definition resolve_flopoco_exe :: "(pystr \<Rightarrow> pystr option) \<Rightarrow> pystr option \<Rightarrow> pystr" where
  "resolve_flopoco_exe wh exe =
     (case exe of
        Some p \<Rightarrow>
          if p \<noteq> [] then p
          else (case wh (ascii ''flopoco'') of
                  Some f \<Rightarrow> if f \<noteq> [] then f else ascii ''./build/flopoco''
                | None \<Rightarrow> ascii ''./build/flopoco'')
      | None \<Rightarrow>
          (case wh (ascii ''flopoco'') of
             Some f \<Rightarrow> if f \<noteq> [] then f else ascii ''./build/flopoco''
           | None \<Rightarrow> ascii ''./build/flopoco''))"

subsection \<open>run\_fixiir\_and\_parse\_metrics\<close>

definition build_cmd :: "pystr \<Rightarrow> ('f, 't) fixiir_args \<Rightarrow> pystr list" where
  "build_cmd exe a =
     [exe,
      ascii ''generateFigures='' @ str_int (generateFigures a),
      ascii ''FixIIR'',
      ascii ''coeffb='' @ coeffb a,
      ascii ''coeffa='' @ coeffa a,
      ascii ''lsbIn='' @ str_int (lsbIn a),
      ascii ''lsbOut='' @ str_int (lsbOut a),
      ascii ''loglevel='' @ str_int (loglevel a)]
     @ (case extra_args a of
          None \<Rightarrow> []
        | Some xs \<Rightarrow> if xs \<noteq> [] then xs else [])"

text \<open>\<open>x or b""\<close>: \<open>None\<close> and the empty bytes object both give \<open>b""\<close>.\<close>

definition or_empty :: "pybytes option \<Rightarrow> pybytes" where
  "or_empty x = (case x of None \<Rightarrow> [] | Some b \<Rightarrow> if b \<noteq> [] then b else [])"

text \<open>
  The \<open>try\<close> block that decodes both streams, and its \<open>except Exception\<close> branch, which
  takes \<open>str\<close> of both when either \<open>decode\<close> raises.
\<close>

definition decode_streams :: "pybytes \<Rightarrow> pybytes \<Rightarrow> pystr \<times> pystr" where
  "decode_streams stdout_b stderr_b =
     (case bytes_decode Replace stdout_b of
        Inl e \<Rightarrow> (str_bytes stdout_b, str_bytes stderr_b)
      | Inr out \<Rightarrow>
          (case bytes_decode Replace stderr_b of
             Inl e \<Rightarrow> (str_bytes stdout_b, str_bytes stderr_b)
           | Inr err \<Rightarrow> (out, err)))"

definition run_fixiir_and_parse_metrics ::
  "('f, 't) env \<Rightarrow> ('f, 't) fixiir_args \<Rightarrow> 't error + 'f FixIIRMetrics" where
  "run_fixiir_and_parse_metrics E a =
     (let exe = resolve_flopoco_exe (which E) (flopoco_exe a);
          cmd = build_cmd exe a
      in case subprocess_run E cmd (timeout_s a) of
        TimeoutExpired e_stdout e_stderr \<Rightarrow>
          (let stdout_b = or_empty e_stdout;
               stderr_b = or_empty e_stderr;
               (out, err) = decode_streams stdout_b stderr_b;
               raw = out @ [10] @ err;
               mH = re_search (ucd E) RE_H raw;
               mHeps = re_search (ucd E) RE_HEPS raw;
               mlsb = re_search (ucd E) RE_LSBEXT raw
           in case (mH, mlsb) of
                (Some gH, Some glsb) \<Rightarrow>
                  (case gH of
                     None \<Rightarrow> Inl TypeError
                   | Some tH \<Rightarrow>
                       (case (case mHeps of
                                None \<Rightarrow> Inr None
                              | Some None \<Rightarrow> Inl TypeError
                              | Some (Some tHeps) \<Rightarrow> Inr (Some (float_of_str E tHeps))) of
                          Inl e \<Rightarrow> Inl e
                        | Inr heps \<Rightarrow>
                            (case glsb of
                               None \<Rightarrow> Inl TypeError
                             | Some tlsb \<Rightarrow>
                                 (case py_int (ucd E) tlsb of
                                    None \<Rightarrow> Inl ValueError
                                  | Some l \<Rightarrow>
                                      Inr \<lparr>H = float_of_str E tH, Heps = heps, lsbExt = l,
                                           raw_log = raw, timedOut = True\<rparr>))))
              | _ \<Rightarrow> Inl (TimeoutFailure (timeout_s a) raw))
      | FileNotFoundError \<Rightarrow> Inl (ExecutableNotFound exe)
      | OtherException \<Rightarrow> Inl Uncaught
      | Completed returncode p_stdout p_stderr \<Rightarrow>
          (let stdout_b = or_empty p_stdout;
               stderr_b = or_empty p_stderr;
               (out, err) = decode_streams stdout_b stderr_b;
               raw = out @ [10] @ err
           in if returncode \<noteq> 0 then Inl (ExitFailure returncode raw)
              else
                (case (case re_search (ucd E) RE_H raw of
                         Some None \<Rightarrow> Inl TypeError
                       | Some (Some tH) \<Rightarrow> Inr (float_of_str E tH)
                       | None \<Rightarrow>
                           (case fallback_H a of
                              Some f \<Rightarrow> Inr f
                            | None \<Rightarrow> Inl (HNotFound raw))) of
                   Inl e \<Rightarrow> Inl e
                 | Inr h \<Rightarrow>
                     (case (case re_search (ucd E) RE_HEPS raw of
                              None \<Rightarrow> Inr None
                            | Some None \<Rightarrow> Inl TypeError
                            | Some (Some tHeps) \<Rightarrow> Inr (Some (float_of_str E tHeps))) of
                        Inl e \<Rightarrow> Inl e
                      | Inr heps \<Rightarrow>
                          (case re_search (ucd E) RE_LSBEXT raw of
                             None \<Rightarrow> Inl (LsbExtNotFound raw)
                           | Some None \<Rightarrow> Inl TypeError
                           | Some (Some tlsb) \<Rightarrow>
                               (case py_int (ucd E) tlsb of
                                  None \<Rightarrow> Inl ValueError
                                | Some l \<Rightarrow>
                                    Inr \<lparr>H = h, Heps = heps, lsbExt = l,
                                         raw_log = raw, timedOut = False\<rparr>))))))"


section \<open>Concrete surroundings for the examples\<close>

text \<open>
  A floating point value is shown by the text \<open>float\<close> read it from; no non-ASCII code
  point is whitespace or a digit; the timeout is a number of seconds.
\<close>

definition which_found :: "pystr \<Rightarrow> pystr option" where
  "which_found name = (if name = ascii ''flopoco'' then Some (ascii ''/usr/bin/flopoco'') else None)"

definition env_with :: "(pystr \<Rightarrow> pystr option) \<Rightarrow> proc_outcome \<Rightarrow> (pystr, nat) env" where
  "env_with wh outcome =
     \<lparr>which = wh, subprocess_run = (\<lambda>cmd t. outcome), float_of_str = (\<lambda>t. t),
      ucd = (\<lambda>c. UOther)\<rparr>"

definition args_with :: "pystr option \<Rightarrow> pystr option \<Rightarrow> (pystr, nat) fixiir_args" where
  "args_with exe fb =
     \<lparr>coeffb = ascii ''0x1p+0:0x1p-1'', coeffa = ascii ''0x1p-2'', lsbIn = - 12, lsbOut = - 12,
      loglevel = 1, generateFigures = 0, flopoco_exe = exe,
      extra_args = Some [ascii ''target=Kintex7''], timeout_s = Some 5, fallback_H = fb\<rparr>"

definition ascii_bytes :: "string \<Rightarrow> pybytes" where
  "ascii_bytes s = map of_char s"

section \<open>The truth table: properties\<close>

lemma compteur_nth: "i < 8 \<Longrightarrow> compteur n ! i = of_bool (bit n (7 - i))"
  by (simp add: compteur_def rev_nth and_one_eq mod2_eq_if bit_iff_odd_drop_bit flip: even_iff_mod_2_eq_zero)

lemma bit3_small:
  "j \<le> 7 \<Longrightarrow> bit3 (int j) = [int (j div 4 mod 2), int (j div 2 mod 2), int (j mod 2)]"
proof -
  assume "j \<le> 7"
  then consider "j = 0" | "j = 1" | "j = 2" | "j = 3" | "j = 4" | "j = 5" | "j = 6" | "j = 7"
    by linarith
  then show ?thesis
  proof cases
    case 1 show ?thesis unfolding 1 by code_simp
  next
    case 2 show ?thesis unfolding 2 by code_simp
  next
    case 3 show ?thesis unfolding 3 by code_simp
  next
    case 4 show ?thesis unfolding 4 by code_simp
  next
    case 5 show ?thesis unfolding 5 by code_simp
  next
    case 6 show ?thesis unfolding 6 by code_simp
  next
    case 7 show ?thesis unfolding 7 by code_simp
  next
    case 8 show ?thesis unfolding 8 by code_simp
  qed
qed

lemma sortie_loop_found:
  "0 \<le> k \<Longrightarrow> k \<le> 7 \<Longrightarrow> j \<le> 7 \<Longrightarrow> 7 - k \<le> int j \<Longrightarrow> \<not> bit n j \<Longrightarrow>
   (\<forall>i. nat (7 - k) \<le> i \<and> i < j \<longrightarrow> bit n i) \<Longrightarrow>
   sortie_loop n k = map (\<lambda>i. if i = 7 - j then 1 else 0) [0..<8] @ bit3 (int j)"
proof (induction n k rule: sortie_loop.induct)
  case (1 n k)
  have nth: "compteur n ! nat k = of_bool (bit n (7 - nat k))"
    using 1(2,3) by (intro compteur_nth) auto
  show ?case
  proof (cases "bit n (7 - nat k)")
    case False
    have "\<not> (7 - nat k < j)"
    proof
      assume "7 - nat k < j"
      with 1(2,3,7) have "bit n (7 - nat k)" by (auto simp: nat_diff_distrib)
      with False show False by simp
    qed
    with 1(2,3,4,5) have j: "int j = 7 - k" by auto
    then have jk: "7 - j = nat k" by auto
    have "map (\<lambda>i. if int i = k then 1 else 0) [0..<8] = map (\<lambda>i. if i = nat k then (1::int) else 0) [0..<8]"
      using 1(2) by (intro map_cong) auto
    with False nth 1(2) j jk show ?thesis
      by (subst sortie_loop.simps) simp
  next
    case True
    with 1(6) have "j \<noteq> 7 - nat k" by auto
    with 1(2,3,4,5) have lt: "7 - k < int j" by auto
    with 1(4) have k1: "0 \<le> k - 1" by auto
    have all: "\<forall>i. nat (7 - (k - 1)) \<le> i \<and> i < j \<longrightarrow> bit n i"
      using 1(7) by auto
    have "sortie_loop n (k - 1) = map (\<lambda>i. if i = 7 - j then 1 else 0) [0..<8] @ bit3 (int j)"
      using 1(1) [OF 1(2) _ k1 _ 1(4) _ 1(6) all] True nth 1(3) lt by auto
    with True nth 1(2) show ?thesis
      by (subst sortie_loop.simps) simp
  qed
qed

lemma low_zero_bit:
  assumes "0 \<le> n" "n \<le> 255" "n \<noteq> 255"
  shows "\<exists>j\<le>7. \<not> bit (n::int) j"
proof (rule ccontr)
  assume "\<not> ?thesis"
  then have all: "\<And>j. j \<le> 7 \<Longrightarrow> odd (n div 2 ^ j)"
    by (simp add: bit_iff_odd)
  from all [of 7] have o7: "odd (n div 128)" by simp
  from all [of 6] have o6: "odd (n div 64)" by simp
  from all [of 5] have o5: "odd (n div 32)" by simp
  from all [of 4] have o4: "odd (n div 16)" by simp
  from all [of 3] have o3: "odd (n div 8)" by simp
  from all [of 2] have o2: "odd (n div 4)" by simp
  from all [of 1] have o1: "odd (n div 2)" by simp
  from all [of 0] have o0: "odd n" by simp
  from o7 assms have g7: "128 \<le> n" by presburger
  from o6 g7 assms have g6: "192 \<le> n" by presburger
  from o5 g6 assms have g5: "224 \<le> n" by presburger
  from o4 g5 assms have g4: "240 \<le> n" by presburger
  from o3 g4 assms have g3: "248 \<le> n" by presburger
  from o2 g3 assms have g2: "252 \<le> n" by presburger
  from o1 g2 assms have g1: "254 \<le> n" by presburger
  from o0 g1 assms show False by presburger
qed

text \<open>
  Claim C10. For every integer \<open>n\<close> from 0 to 255, \<open>sortie n\<close> is a list of eleven
  entries, each 0 or 1. For \<open>n = 255\<close> all eleven are 0. Otherwise, with \<open>j\<close> the lowest
  bit position of \<open>n\<close> that holds a 0 (it is at most 7), the first eight entries are 0
  except for a single 1 at index \<open>7 - j\<close>, and the last three are the binary digits of
  \<open>j\<close>, most significant first.
\<close>

theorem sortie_spec:
  assumes "0 \<le> n" and "n \<le> 255"
  shows "length (sortie n) = 11 \<and> set (sortie n) \<subseteq> {0, 1} \<and>
    (if n = 255 then sortie n = replicate 11 0
     else \<exists>j\<le>7. \<not> bit n j \<and> (\<forall>i<j. bit n i) \<and>
            take 8 (sortie n) = map (\<lambda>i. if i = 7 - j then 1 else 0) [0..<8] \<and>
            drop 8 (sortie n) = [int (j div 4 mod 2), int (j div 2 mod 2), int (j mod 2)])"
proof (cases "n = 255")
  case True
  have v: "sortie 255 = [0, 0, 0, 0, 0, 0, 0, 0, 0, 0, 0]"
    by code_simp
  have "replicate 11 (0::int) = [0, 0, 0, 0, 0, 0, 0, 0, 0, 0, 0]"
    by code_simp
  with v True show ?thesis by simp
next
  case False
  from low_zero_bit [OF assms False] obtain j0 where j0: "j0 \<le> 7" "\<not> bit n j0" by blast
  define j where "j = (LEAST j. \<not> bit n j)"
  have nb: "\<not> bit n j" unfolding j_def using j0(2) by (rule LeastI)
  have jle: "j \<le> 7" unfolding j_def using Least_le [of "\<lambda>j. \<not> bit n j" j0] j0 by simp
  have below: "\<forall>i<j. bit n i" unfolding j_def using not_less_Least by blast
  have eq: "sortie n = map (\<lambda>i. if i = 7 - j then 1 else 0) [0..<8] @ bit3 (int j)"
    unfolding sortie_def using jle nb below by (intro sortie_loop_found) auto
  have b3: "bit3 (int j) = [int (j div 4 mod 2), int (j div 2 mod 2), int (j mod 2)]"
    using jle by (rule bit3_small)
  have len: "length (sortie n) = 11" by (simp add: eq b3)
  have bin: "set (sortie n) \<subseteq> {0, 1}" by (auto simp: eq b3)
  have tk: "take 8 (sortie n) = map (\<lambda>i. if i = 7 - j then 1 else 0) [0..<8]"
    by (simp add: eq)
  have dr: "drop 8 (sortie n) = [int (j div 4 mod 2), int (j div 2 mod 2), int (j mod 2)]"
    by (simp add: eq b3)
  from False len bin jle nb below tk dr show ?thesis by auto
qed

theorem sortie_spec_witness:
  "(0::int) \<le> 5 \<and> (5::int) \<le> 255 \<and> length (sortie 5) = 11 \<and>
   sortie 5 = [0, 0, 0, 0, 0, 0, 1, 0, 0, 0, 1]"
proof -
  have "sortie 5 = [0, 0, 0, 0, 0, 0, 1, 0, 0, 0, 1]"
    by code_simp
  with sortie_spec [of 5] show ?thesis by simp
qed


end
